theory Spec2Isabelle
  imports Complex_Main "HOL-Library.Signed_Division"
begin

section \<open>PLTS monitoring: the acquisition, derivation and classification pipeline\<close>

text \<open>
  The repository holds two Arduino sketches. The main sketch (the monitoring program with
  \<open>readAllSensors\<close>, \<open>calculateElectricalParameters\<close> and \<open>getSystemStatus\<close>) samples
  four channels every cycle and fills the global record \<open>data\<close>. The diagnostic sketch
  \<open>debug_ldr.ino\<close> watches the light channel alone and has a baseline calibration.

  Conventions of the embedding.
  \<^item> A C \<open>float\<close> or \<open>double\<close> that the program computes is a \<open>real\<close>: arithmetic is
    exact, as in the specification, whose Data Record declares these fields real. No
    rounding is modelled.
  \<^item> The two values the combo-sensor driver returns may be NaN, so they have the type
    \<open>cfloat\<close>, which has NaN as a value of its own.
  \<^item> A raw sample is the C \<open>int\<close> that \<open>analogRead\<close> returns, an \<open>int\<close> here. It is
    converted to floating point before any arithmetic, so no integer overflow is involved.
  \<^item> The global record is passed in and returned. Display calls and delays are left out:
    they read the record and never write it.
\<close>

subsection \<open>Constants of the main sketch\<close>

definition ADC_RESOLUTION :: real where
  "ADC_RESOLUTION = 4095.0"

definition VREF :: real where
  "VREF = 3.3"

definition ACS712_SENSITIVITY :: real where
  "ACS712_SENSITIVITY = 0.185"

subsection \<open>The hardware of one cycle\<close>

datatype cfloat = NaN | Finite real

text \<open>
  Modelled from the spec: \<open>isnan\<close> is the C library's test for "an undefined numeric
  result", which the driver returns when the sensor does not answer.
\<close>

fun isnan :: "cfloat \<Rightarrow> bool" where
  "isnan NaN = True"
| "isnan (Finite x) = False"

datatype pin = LDR_PIN | VOLTAGE_PIN | CURRENT_PIN

text \<open>
  What the drivers answer during one run of \<open>readAllSensors\<close>: the two calls of the
  combo-sensor driver and one \<open>analogRead\<close> for each pin.
\<close>

record Hardware =
  readTemperature :: cfloat
  readHumidity :: cfloat
  analogRead :: "pin \<Rightarrow> int"

subsection \<open>The Data Record\<close>

record SensorData =
  temperature :: cfloat
  humidity :: cfloat
  lightIntensity :: real
  gridVoltage :: real
  loadCurrent :: real
  activePower :: real
  powerFactor :: real
  frequency :: real
  irradiance :: real
  dhtError :: bool
  ldrError :: bool
  voltageError :: bool
  currentError :: bool

text \<open>The global \<open>SensorData data;\<close> is zero-initialised at program start.\<close>

definition data_init :: SensorData where
  "data_init = \<lparr> temperature = Finite 0, humidity = Finite 0, lightIntensity = 0,
     gridVoltage = 0, loadCurrent = 0, activePower = 0, powerFactor = 0, frequency = 0,
     irradiance = 0, dhtError = False, ldrError = False, voltageError = False,
     currentError = False \<rparr>"

text \<open>
  Modelled from the spec: \<open>abs\<close> is supplied by the Arduino core, which is not part of
  the repository. The specification says of the current conversion "magnitude taken";
  the core defines \<open>abs\<close> as the macro \<open>((x)>0?(x):-(x))\<close>, which is written out here.
\<close>

definition abs_macro :: "real \<Rightarrow> real" where
  "abs_macro x = (if x > 0 then x else - x)"

subsection \<open>Conversion and validation: \<open>readAllSensors\<close>\<close>

definition readAllSensors :: "Hardware \<Rightarrow> SensorData \<Rightarrow> SensorData" where
  "readAllSensors hw data0 =
    (let data = data0\<lparr>temperature := readTemperature hw\<rparr>;
         data = data\<lparr>humidity := readHumidity hw\<rparr>;
         data = data\<lparr>dhtError := (isnan (temperature data) \<or> isnan (humidity data))\<rparr>;
         ldrRaw = analogRead hw LDR_PIN;
         ldrVoltage = (real_of_int ldrRaw * VREF) / ADC_RESOLUTION;
         data = data\<lparr>ldrError := False\<rparr>;
         data = (if ldrVoltage > 0.1 then
                   (let d = data\<lparr>lightIntensity := (2500.0 / ldrVoltage) - 500.0\<rparr>;
                        d = (if lightIntensity d < 0 then d\<lparr>lightIntensity := 0\<rparr> else d);
                        d = (if lightIntensity d > 50000 then d\<lparr>lightIntensity := 50000\<rparr> else d)
                    in d)
                 else data\<lparr>lightIntensity := 0\<rparr>);
         data = data\<lparr>irradiance := lightIntensity data / 120.0\<rparr>;
         voltageRaw = analogRead hw VOLTAGE_PIN;
         voltageADC = (real_of_int voltageRaw * VREF) / ADC_RESOLUTION;
         data = data\<lparr>voltageError := False\<rparr>;
         data = data\<lparr>gridVoltage := voltageADC * 220.0\<rparr>;
         currentRaw = analogRead hw CURRENT_PIN;
         currentADC = (real_of_int currentRaw * VREF) / ADC_RESOLUTION;
         data = data\<lparr>currentError := False\<rparr>;
         currentOffset = VREF / 2.0;
         currentVoltage = currentADC - currentOffset;
         data = data\<lparr>loadCurrent := abs_macro (currentVoltage / ACS712_SENSITIVITY)\<rparr>;
         data = (if gridVoltage data > 300 then data\<lparr>gridVoltage := 0\<rparr> else data);
         data = (if loadCurrent data > 50 then data\<lparr>loadCurrent := 0\<rparr> else data)
     in data)"

subsection \<open>Derived parameters: \<open>calculateElectricalParameters\<close>\<close>

definition calculateElectricalParameters :: "SensorData \<Rightarrow> SensorData" where
  "calculateElectricalParameters data0 =
    (let data = data0\<lparr>powerFactor := 0.9\<rparr>;
         data = data\<lparr>activePower := gridVoltage data * loadCurrent data * powerFactor data\<rparr>;
         data = (if activePower data > 10000 then data\<lparr>activePower := 0\<rparr> else data);
         data = (if activePower data < 0.1 then data\<lparr>activePower := 0\<rparr> else data);
         data = data\<lparr>frequency := 50.0\<rparr>
     in data)"

subsection \<open>Status classifier: \<open>getSystemStatus\<close>\<close>

definition getSystemStatus :: "SensorData \<Rightarrow> string" where
  "getSystemStatus data =
    (if gridVoltage data < 180 \<or> gridVoltage data > 250 then ''GRID FAULT''
     else if activePower data > 5000 then ''HIGH LOAD''
     else if activePower data > 1000 then ''NORMAL''
     else if activePower data > 100 then ''LOW LOAD''
     else ''STANDBY'')"

text \<open>
  One pass of \<open>loop\<close> up to the display update: \<open>readAllSensors\<close>, then
  \<open>calculateElectricalParameters\<close>. The status label is computed from the record they
  leave behind.
\<close>

definition loop_body :: "Hardware \<Rightarrow> SensorData \<Rightarrow> SensorData" where
  "loop_body hw data = calculateElectricalParameters (readAllSensors hw data)"

section \<open>The diagnostic sketch \<open>debug_ldr.ino\<close>\<close>

text \<open>
  The diagnostic sketch keeps its state in plain globals. The conversions read and write
  \<open>adcValue\<close>, \<open>voltage\<close>, \<open>lightIntensity\<close> and \<open>irradiance\<close>; the last two carry the
  suffix \<open>_g\<close> here, since the Data Record of the main sketch has fields of the same
  names. The counters \<open>timestamp\<close> and \<open>readingCount\<close> are only displayed and are left
  out. The text written to the serial port is kept, in order, in \<open>serial\<close>.
  The sketch defines \<open>VREF\<close> and \<open>ADC_RESOLUTION\<close> with the values of the main sketch.
\<close>

datatype serial_out =
    Print string
  | Println string
  | PrintInt int
  | PrintlnInt int
  | PrintFloat real nat
  | PrintlnFloat real nat

record LdrGlobals =
  adcValue :: int
  voltage :: real
  lightIntensity_g :: real
  irradiance_g :: real
  serial :: "serial_out list"

definition globals_init :: LdrGlobals where
  "globals_init = \<lparr> adcValue = 0, voltage = 0.0, lightIntensity_g = 0.0,
     irradiance_g = 0.0, serial = [] \<rparr>"

text \<open>
  The only operation of the two conversions that can stop the program is the integer
  division \<open>adcSum / validReadings\<close>: a zero divisor is a fault. C division truncates
  towards zero, which is \<open>sdiv\<close>.
\<close>

datatype fault = DivideByZero

definition c_div :: "int \<Rightarrow> int \<Rightarrow> fault + int" where
  "c_div a b = (if b = 0 then Inl DivideByZero else Inr (a sdiv b))"

text \<open>
  The sampling loop \<open>for(int i = 0; i < n; i++)\<close> of both functions. \<open>adc k\<close> is the
  answer to the \<open>k\<close>-th call of \<open>analogRead(LDR_PIN)\<close> since the function was entered;
  the accumulator is the pair \<open>(adcSum, validReadings)\<close>.
\<close>

fun sample_loop :: "(nat \<Rightarrow> int) \<Rightarrow> nat \<Rightarrow> nat \<Rightarrow> int \<times> int \<Rightarrow> int \<times> int" where
  "sample_loop adc k 0 acc = acc"
| "sample_loop adc k (Suc n) (adcSum, validReadings) =
    (let reading = adc k
     in sample_loop adc (Suc k) n
          (if reading > 10 \<and> reading < 4085
           then (adcSum + reading, validReadings + 1)
           else (adcSum, validReadings)))"

subsection \<open>Baseline calibration: \<open>calibrateLDR\<close>\<close>

text \<open>
  The function is modelled block by block, in the order of the source. The first fifty
  reads (numbers 0 to 49) settle the converter and are thrown away. The first block is
  the averaging of the twenty reads that follow (from \<open>long adcSum = 0\<close> to the end of the
  \<open>if(validReadings == 0)\<close> statement).
\<close>

definition calibrate_average :: "(nat \<Rightarrow> int) \<Rightarrow> LdrGlobals \<Rightarrow> fault + LdrGlobals" where
  "calibrate_average adc g =
    (let (adcSum, validReadings) = sample_loop adc 50 20 (0, 0)
     in if validReadings = 0
        then Inr (g\<lparr>serial := serial g @
                     [Println ''WARNING: No valid readings during calibration!'',
                      Println ''Check LDR connection and lighting conditions''],
                   adcValue := 2048\<rparr>)
        else (case c_div adcSum validReadings of
                Inl e \<Rightarrow> Inl e
              | Inr q \<Rightarrow>
                  Inr (g\<lparr>adcValue := q,
                         serial := serial g @
                           [Print ''Calibration complete. Average ADC: '', PrintlnInt q]\<rparr>)))"

text \<open>
  The second block converts the baseline (from \<open>voltage = (float)adcValue * VREF /
  ADC_RESOLUTION\<close> to \<open>irradiance = lightIntensity / 120.0\<close>).
\<close>

definition calibrate_convert :: "LdrGlobals \<Rightarrow> LdrGlobals" where
  "calibrate_convert g0 =
    (let g = g0\<lparr>voltage := real_of_int (adcValue g0) * VREF / ADC_RESOLUTION\<rparr>;
         g = (if voltage g \<ge> 3.0 then
                g\<lparr>lightIntensity_g := 0,
                  serial := serial g @ [Println ''Calibration: DARK condition detected'']\<rparr>
              else if voltage g \<le> 0.3 then
                g\<lparr>lightIntensity_g := 50000,
                  serial := serial g @ [Println ''Calibration: BRIGHT condition detected'']\<rparr>
              else
                (let h = g\<lparr>lightIntensity_g := 50000.0 - ((voltage g - 0.3) * 50000.0 / 2.7)\<rparr>;
                     h = (if lightIntensity_g h < 0 then h\<lparr>lightIntensity_g := 0\<rparr> else h);
                     h = (if lightIntensity_g h > 50000 then h\<lparr>lightIntensity_g := 50000\<rparr> else h)
                 in h\<lparr>serial := serial h @
                        [Print ''Calibration: NORMAL condition. Lux: '',
                         PrintlnFloat (lightIntensity_g h) 2]\<rparr>))
     in g\<lparr>irradiance_g := lightIntensity_g g / 120.0\<rparr>)"

definition calibrateLDR :: "(nat \<Rightarrow> int) \<Rightarrow> LdrGlobals \<Rightarrow> fault + LdrGlobals" where
  "calibrateLDR adc g =
    (case calibrate_average adc g of
       Inl e \<Rightarrow> Inl e
     | Inr g1 \<Rightarrow> Inr (calibrate_convert g1))"

subsection \<open>Steady-state light conversion: \<open>readLDRSensor\<close>\<close>

text \<open>
  Again block by block. The averaging of five reads; without a valid read \<open>adcValue\<close>
  keeps its previous value.
\<close>

definition read_average :: "(nat \<Rightarrow> int) \<Rightarrow> LdrGlobals \<Rightarrow> fault + LdrGlobals" where
  "read_average adc g =
    (let (adcSum, validReadings) = sample_loop adc 0 5 (0, 0)
     in if validReadings = 0
        then Inr (g\<lparr>serial := serial g @
                     [Println ''WARNING: No valid readings! Using previous value.'']\<rparr>)
        else (case c_div adcSum validReadings of
                Inl e \<Rightarrow> Inl e
              | Inr q \<Rightarrow> Inr (g\<lparr>adcValue := q\<rparr>)))"

text \<open>The conversion to voltage, lux and irradiance.\<close>

definition read_convert :: "LdrGlobals \<Rightarrow> LdrGlobals" where
  "read_convert g0 =
    (let g = g0\<lparr>voltage := real_of_int (adcValue g0) * VREF / ADC_RESOLUTION\<rparr>;
         g = (if voltage g \<ge> 3.0 then g\<lparr>lightIntensity_g := 0\<rparr>
              else if voltage g \<le> 0.3 then g\<lparr>lightIntensity_g := 50000\<rparr>
              else
                (let h = g\<lparr>lightIntensity_g := 50000.0 - ((voltage g - 0.3) * 50000.0 / 2.7)\<rparr>;
                     h = (if lightIntensity_g h < 0 then h\<lparr>lightIntensity_g := 0\<rparr> else h);
                     h = (if lightIntensity_g h > 50000 then h\<lparr>lightIntensity_g := 50000\<rparr> else h)
                 in h))
     in g\<lparr>irradiance_g := lightIntensity_g g / 120.0\<rparr>)"

text \<open>The floor of one lux below 3.0 V (\<open>if(lightIntensity == 0 && voltage < 3.0)\<close>).\<close>

definition read_minimum :: "LdrGlobals \<Rightarrow> LdrGlobals" where
  "read_minimum g =
    (if lightIntensity_g g = 0 \<and> voltage g < 3.0
     then g\<lparr>lightIntensity_g := 1, irradiance_g := 1.0 / 120.0\<rparr> else g)"

text \<open>The warning for a high reading (\<open>if(adcValue > 4000)\<close>).\<close>

definition read_high_adc_warning :: "LdrGlobals \<Rightarrow> LdrGlobals" where
  "read_high_adc_warning g =
    (if adcValue g > 4000
     then g\<lparr>serial := serial g @
              [Print ''HIGH ADC WARNING: '', PrintInt (adcValue g),
               Print '' -> V: '', PrintFloat (voltage g) 3,
               Print '' -> Lux: '', PrintlnFloat (lightIntensity_g g) 2,
               Println ''Try increasing light or check sensor connection'']\<rparr>
     else g)"

definition readLDRSensor :: "(nat \<Rightarrow> int) \<Rightarrow> LdrGlobals \<Rightarrow> fault + LdrGlobals" where
  "readLDRSensor adc g =
    (case read_average adc g of
       Inl e \<Rightarrow> Inl e
     | Inr g1 \<Rightarrow> Inr (read_high_adc_warning (read_minimum (read_convert g1))))"

subsection \<open>The status classifier as the specification words it\<close>

text \<open>
  The specification gives the classifier as a list of rules in priority order, the first
  rule whose condition holds giving the label, and a default label. \<open>status_spec\<close> follows
  those words; it is compared with \<open>getSystemStatus\<close> below.
\<close>

fun first_match :: "(('a \<Rightarrow> bool) \<times> 'b) list \<Rightarrow> 'b \<Rightarrow> 'a \<Rightarrow> 'b" where
  "first_match [] dflt d = dflt"
| "first_match ((p, l) # rs) dflt d = (if p d then l else first_match rs dflt d)"

definition status_rules :: "((SensorData \<Rightarrow> bool) \<times> string) list" where
  "status_rules =
    [(\<lambda>d. gridVoltage d < 180 \<or> gridVoltage d > 250, ''GRID FAULT''),
     (\<lambda>d. activePower d > 5000, ''HIGH LOAD''),
     (\<lambda>d. activePower d > 1000, ''NORMAL''),
     (\<lambda>d. activePower d > 100, ''LOW LOAD'')]"

definition status_spec :: "SensorData \<Rightarrow> string" where
  "status_spec d = first_match status_rules ''STANDBY'' d"

section \<open>Properties of the main sketch\<close>

subsection \<open>What each stage writes\<close>

text \<open>
  Field by field, the record \<open>readAllSensors\<close> returns. Every right-hand side depends on
  the hardware answers alone, never on the record passed in.
\<close>

lemma readAllSensors_dht:
  "temperature (readAllSensors hw d) = readTemperature hw"
  "humidity (readAllSensors hw d) = readHumidity hw"
  "dhtError (readAllSensors hw d) = (isnan (readTemperature hw) \<or> isnan (readHumidity hw))"
  by (simp_all add: readAllSensors_def Let_def)

lemma readAllSensors_flags:
  "ldrError (readAllSensors hw d) = False"
  "voltageError (readAllSensors hw d) = False"
  "currentError (readAllSensors hw d) = False"
  by (simp_all add: readAllSensors_def Let_def)

lemma readAllSensors_lightIntensity:
  "lightIntensity (readAllSensors hw d) =
     (if real_of_int (analogRead hw LDR_PIN) * VREF / ADC_RESOLUTION > 0.1
      then (if 2500 / (real_of_int (analogRead hw LDR_PIN) * VREF / ADC_RESOLUTION) - 500 < 0
            then 0
            else if 2500 / (real_of_int (analogRead hw LDR_PIN) * VREF / ADC_RESOLUTION) - 500
                      > 50000
            then 50000
            else 2500 / (real_of_int (analogRead hw LDR_PIN) * VREF / ADC_RESOLUTION) - 500)
      else 0)"
  by (simp add: readAllSensors_def Let_def)

lemma readAllSensors_irradiance:
  "irradiance (readAllSensors hw d) = lightIntensity (readAllSensors hw d) / 120"
  by (simp add: readAllSensors_def Let_def)

lemma readAllSensors_gridVoltage:
  "gridVoltage (readAllSensors hw d) =
     (if real_of_int (analogRead hw VOLTAGE_PIN) * VREF / ADC_RESOLUTION * 220 > 300 then 0
      else real_of_int (analogRead hw VOLTAGE_PIN) * VREF / ADC_RESOLUTION * 220)"
  by (simp add: readAllSensors_def Let_def)

lemma abs_macro_abs: "abs_macro x = \<bar>x\<bar>"
  by (simp add: abs_macro_def)

lemma readAllSensors_loadCurrent:
  "loadCurrent (readAllSensors hw d) =
     (if \<bar>(real_of_int (analogRead hw CURRENT_PIN) * VREF / ADC_RESOLUTION - VREF / 2)
           / ACS712_SENSITIVITY\<bar> > 50
      then 0
      else \<bar>(real_of_int (analogRead hw CURRENT_PIN) * VREF / ADC_RESOLUTION - VREF / 2)
             / ACS712_SENSITIVITY\<bar>)"
  by (simp add: readAllSensors_def Let_def abs_macro_abs)

text \<open>\<open>calculateElectricalParameters\<close> writes three fields and keeps the other ten.\<close>

lemma calculateElectricalParameters_keeps:
  "temperature (calculateElectricalParameters d) = temperature d"
  "humidity (calculateElectricalParameters d) = humidity d"
  "lightIntensity (calculateElectricalParameters d) = lightIntensity d"
  "irradiance (calculateElectricalParameters d) = irradiance d"
  "gridVoltage (calculateElectricalParameters d) = gridVoltage d"
  "loadCurrent (calculateElectricalParameters d) = loadCurrent d"
  "dhtError (calculateElectricalParameters d) = dhtError d"
  "ldrError (calculateElectricalParameters d) = ldrError d"
  "voltageError (calculateElectricalParameters d) = voltageError d"
  "currentError (calculateElectricalParameters d) = currentError d"
  by (simp_all add: calculateElectricalParameters_def Let_def)

lemma calculateElectricalParameters_activePower:
  "activePower (calculateElectricalParameters d) =
     (if gridVoltage d * loadCurrent d * 0.9 > 10000 \<or> gridVoltage d * loadCurrent d * 0.9 < 0.1
      then 0 else gridVoltage d * loadCurrent d * 0.9)"
  by (simp add: calculateElectricalParameters_def Let_def)

lemma calculateElectricalParameters_constants:
  "powerFactor (calculateElectricalParameters d) = 0.9"
  "frequency (calculateElectricalParameters d) = 50.0"
  by (simp_all add: calculateElectricalParameters_def Let_def)

lemma calculateElectricalParameters_cong:
  assumes "temperature a = temperature b" "humidity a = humidity b"
    "lightIntensity a = lightIntensity b" "gridVoltage a = gridVoltage b"
    "loadCurrent a = loadCurrent b" "irradiance a = irradiance b"
    "dhtError a = dhtError b" "ldrError a = ldrError b"
    "voltageError a = voltageError b" "currentError a = currentError b"
  shows "calculateElectricalParameters a = calculateElectricalParameters b"
  by (rule SensorData.equality)
     (simp_all add: calculateElectricalParameters_keeps calculateElectricalParameters_activePower
        calculateElectricalParameters_constants assms)

lemma inverse_lux_bound:
  fixes v :: real
  assumes "v > 0.1"
  shows "2500 / v - 500 < 24500"
proof -
  have pos: "v > 0" using assms by simp
  have "2500 < 25000 * v" using assms by simp
  hence "2500 / v < 25000" using pos by (simp add: divide_less_eq)
  thus ?thesis by simp
qed

text \<open>
  For a raw current sample inside the converter's range the converted magnitude is at
  most \<open>1.65 / 0.185\<close>, below 9: the ceiling of 50 is out of reach there.
\<close>

lemma current_magnitude_in_range:
  assumes "0 \<le> raw" and "raw \<le> 4095"
  shows "\<bar>(real_of_int raw * VREF / ADC_RESOLUTION - VREF / 2) / ACS712_SENSITIVITY\<bar> \<le> 50"
proof -
  define y where "y = real_of_int raw * (33 / 10) / 4095 - 33 / 20"
  have "0 \<le> real_of_int raw" "real_of_int raw \<le> 4095" using assms by simp_all
  hence "- (33 / 20) \<le> y" "y \<le> 33 / 20" by (simp_all add: y_def)
  hence "\<bar>y\<bar> \<le> 33 / 20" by linarith
  hence "\<bar>y\<bar> / (185 / 1000) \<le> (33 / 20) / (185 / 1000)"
    by (rule divide_right_mono) simp
  hence "\<bar>y / (185 / 1000)\<bar> \<le> 50" by simp
  thus ?thesis by (simp add: y_def VREF_def ADC_RESOLUTION_def ACS712_SENSITIVITY_def)
qed

text \<open>The light conversion of the main sketch at the two ends of the voltage range.\<close>

lemma main_low_guard:
  assumes "real_of_int (analogRead hw LDR_PIN) * VREF / ADC_RESOLUTION \<le> 0.1"
  shows "lightIntensity (loop_body hw data) = 0 \<and> irradiance (loop_body hw data) = 0"
proof -
  define v where "v = real_of_int (analogRead hw LDR_PIN) * VREF / ADC_RESOLUTION"
  from assms have le: "\<not> v > 0.1" by (simp add: v_def)
  have "lightIntensity (readAllSensors hw data) =
     (if v > 0.1 then (if 2500 / v - 500 < 0 then 0
                       else if 2500 / v - 500 > 50000 then 50000 else 2500 / v - 500)
      else 0)"
    unfolding v_def by (rule readAllSensors_lightIntensity)
  with le have "lightIntensity (readAllSensors hw data) = 0" by simp
  thus ?thesis
    by (simp add: loop_body_def calculateElectricalParameters_keeps readAllSensors_irradiance)
qed

lemma main_no_high_guard:
  assumes "3.0 \<le> real_of_int (analogRead hw LDR_PIN) * VREF / ADC_RESOLUTION"
    and "real_of_int (analogRead hw LDR_PIN) * VREF / ADC_RESOLUTION \<le> VREF"
  shows "lightIntensity (loop_body hw data) =
           2500 / (real_of_int (analogRead hw LDR_PIN) * VREF / ADC_RESOLUTION) - 500
         \<and> lightIntensity (loop_body hw data) > 0"
proof -
  define v where "v = real_of_int (analogRead hw LDR_PIN) * VREF / ADC_RESOLUTION"
  from assms have lo: "3 \<le> v" and hi: "v \<le> 3.3" by (simp_all add: v_def VREF_def)
  have pos: "0 < v" using lo by simp
  have "500 * v < 2500" using hi by simp
  hence a: "500 < 2500 / v" using pos by (simp add: less_divide_eq)
  have "2500 < 50500 * v" using lo by simp
  hence b: "2500 / v < 50500" using pos by (simp add: divide_less_eq)
  have "lightIntensity (readAllSensors hw data) =
     (if v > 0.1 then (if 2500 / v - 500 < 0 then 0
                       else if 2500 / v - 500 > 50000 then 50000 else 2500 / v - 500)
      else 0)"
    unfolding v_def by (rule readAllSensors_lightIntensity)
  with lo a b have "lightIntensity (readAllSensors hw data) = 2500 / v - 500" by simp
  with a show ?thesis
    by (simp add: loop_body_def calculateElectricalParameters_keeps v_def)
qed


section \<open>Properties of the diagnostic sketch\<close>

subsection \<open>The sampling loop and the blocks of \<open>readLDRSensor\<close>\<close>

lemma read_average_total: "\<exists>g. read_average adc g0 = Inr g"
  by (simp add: read_average_def c_div_def Let_def split: prod.splits)

lemma read_convert_voltage:
  "voltage (read_convert g) = real_of_int (adcValue g) * VREF / ADC_RESOLUTION"
  "adcValue (read_convert g) = adcValue g"
  by (simp_all add: read_convert_def Let_def)

lemma read_convert_lux:
  "lightIntensity_g (read_convert g) =
     (if real_of_int (adcValue g) * VREF / ADC_RESOLUTION \<ge> 3.0 then 0
      else if real_of_int (adcValue g) * VREF / ADC_RESOLUTION \<le> 0.3 then 50000
      else if 50000 - (real_of_int (adcValue g) * VREF / ADC_RESOLUTION - 0.3) * 50000 / 2.7 < 0
      then 0
      else if 50000 - (real_of_int (adcValue g) * VREF / ADC_RESOLUTION - 0.3) * 50000 / 2.7
                > 50000
      then 50000
      else 50000 - (real_of_int (adcValue g) * VREF / ADC_RESOLUTION - 0.3) * 50000 / 2.7)"
  by (simp add: read_convert_def Let_def)

lemma read_convert_irradiance:
  "irradiance_g (read_convert g) = lightIntensity_g (read_convert g) / 120"
  by (simp add: read_convert_def Let_def)

lemma read_convert_bright:
  assumes "voltage (read_convert g) \<le> 0.3"
  shows "lightIntensity_g (read_convert g) = 50000 \<and> irradiance_g (read_convert g) = 50000 / 120"
proof -
  define v where "v = real_of_int (adcValue g) * VREF / ADC_RESOLUTION"
  from assms have le: "v \<le> 0.3"
    by (simp only: read_convert_voltage v_def)
  have "lightIntensity_g (read_convert g) =
     (if v \<ge> 3.0 then 0 else if v \<le> 0.3 then 50000
      else if 50000 - (v - 0.3) * 50000 / 2.7 < 0 then 0
      else if 50000 - (v - 0.3) * 50000 / 2.7 > 50000 then 50000
      else 50000 - (v - 0.3) * 50000 / 2.7)"
    unfolding v_def by (rule read_convert_lux)
  with le have "lightIntensity_g (read_convert g) = 50000" by simp
  thus ?thesis by (simp add: read_convert_irradiance)
qed

lemma read_convert_dark:
  assumes "voltage (read_convert g) \<ge> 3.0"
  shows "lightIntensity_g (read_convert g) = 0 \<and> irradiance_g (read_convert g) = 0"
proof -
  define v where "v = real_of_int (adcValue g) * VREF / ADC_RESOLUTION"
  from assms have ge: "v \<ge> 3.0"
    by (simp only: read_convert_voltage v_def)
  have "lightIntensity_g (read_convert g) =
     (if v \<ge> 3.0 then 0 else if v \<le> 0.3 then 50000
      else if 50000 - (v - 0.3) * 50000 / 2.7 < 0 then 0
      else if 50000 - (v - 0.3) * 50000 / 2.7 > 50000 then 50000
      else 50000 - (v - 0.3) * 50000 / 2.7)"
    unfolding v_def by (rule read_convert_lux)
  with ge have "lightIntensity_g (read_convert g) = 0" by simp
  thus ?thesis by (simp add: read_convert_irradiance)
qed

lemma read_minimum_keeps:
  "voltage (read_minimum g) = voltage g" "adcValue (read_minimum g) = adcValue g"
  by (simp_all add: read_minimum_def)

lemma read_minimum_id:
  "lightIntensity_g g \<noteq> 0 \<or> voltage g \<ge> 3.0 \<Longrightarrow> read_minimum g = g"
  by (auto simp add: read_minimum_def)

lemma read_high_adc_warning_keeps:
  "voltage (read_high_adc_warning g) = voltage g"
  "adcValue (read_high_adc_warning g) = adcValue g"
  "lightIntensity_g (read_high_adc_warning g) = lightIntensity_g g"
  "irradiance_g (read_high_adc_warning g) = irradiance_g g"
  by (simp_all add: read_high_adc_warning_def)

lemma readLDRSensor_ladder:
  "\<exists>g. readLDRSensor adc g0 = Inr g
     \<and> voltage g = real_of_int (adcValue g) * VREF / ADC_RESOLUTION
     \<and> (voltage g \<le> 0.3 \<longrightarrow> lightIntensity_g g = 50000 \<and> irradiance_g g = 50000 / 120)
     \<and> (voltage g \<ge> 3.0 \<longrightarrow> lightIntensity_g g = 0 \<and> irradiance_g g = 0)"
proof -
  obtain g1 where avg: "read_average adc g0 = Inr g1"
    using read_average_total by blast
  let ?c = "read_convert g1"
  let ?g = "read_high_adc_warning (read_minimum ?c)"
  have res: "readLDRSensor adc g0 = Inr ?g"
    by (simp add: readLDRSensor_def avg)
  have v: "voltage ?g = voltage ?c" and a: "adcValue ?g = adcValue g1"
    by (simp_all add: read_high_adc_warning_keeps read_minimum_keeps read_convert_voltage)
  have volt: "voltage ?g = real_of_int (adcValue ?g) * VREF / ADC_RESOLUTION"
    by (simp add: v a read_convert_voltage)
  have bright: "lightIntensity_g ?g = 50000 \<and> irradiance_g ?g = 50000 / 120"
    if "voltage ?g \<le> 0.3"
  proof -
    from that have le: "voltage ?c \<le> 0.3" by (simp add: v)
    from read_convert_bright[OF le] have "read_minimum ?c = ?c"
      by (intro read_minimum_id) simp
    with read_convert_bright[OF le] show ?thesis
      by (simp add: read_high_adc_warning_keeps)
  qed
  have dark: "lightIntensity_g ?g = 0 \<and> irradiance_g ?g = 0" if "voltage ?g \<ge> 3.0"
  proof -
    from that have ge: "voltage ?c \<ge> 3.0" by (simp add: v)
    hence "read_minimum ?c = ?c" by (intro read_minimum_id) simp
    with read_convert_dark[OF ge] show ?thesis
      by (simp add: read_high_adc_warning_keeps)
  qed
  from res volt bright dark show ?thesis by blast
qed

lemma sample_loop_62: "sample_loop (\<lambda>k. 62) 0 5 (0, 0) = (310, 5)"
  by (simp add: eval_nat_numeral)

lemma sample_loop_4000: "sample_loop (\<lambda>k. 4000) 0 5 (0, 0) = (20000, 5)"
  by (simp add: eval_nat_numeral)

lemma read_average_62: "read_average (\<lambda>k. 62) globals_init = Inr (globals_init\<lparr>adcValue := 62\<rparr>)"
  by (simp add: read_average_def sample_loop_62 c_div_def signed_divide_int_def)

lemma read_average_4000: "read_average (\<lambda>k. 4000) globals_init = Inr (globals_init\<lparr>adcValue := 4000\<rparr>)"
  by (simp add: read_average_def sample_loop_4000 c_div_def signed_divide_int_def)

lemma readLDRSensor_adcValue:
  assumes "read_average adc g0 = Inr g1" and "readLDRSensor adc g0 = Inr g"
  shows "adcValue g = adcValue g1"
  using assms
  by (auto simp add: readLDRSensor_def read_high_adc_warning_keeps read_minimum_keeps
        read_convert_voltage)

subsection \<open>The blocks of \<open>calibrateLDR\<close>\<close>

lemma sample_loop_all_rejected:
  "(\<And>i. k \<le> i \<Longrightarrow> i < k + n \<Longrightarrow> adc i \<le> 10 \<or> 4085 \<le> adc i)
   \<Longrightarrow> sample_loop adc k n acc = acc"
proof (induction n arbitrary: k acc)
  case 0
  then show ?case by simp
next
  case (Suc n)
  obtain s v where acc: "acc = (s, v)" by (cases acc)
  have rej: "adc k \<le> 10 \<or> 4085 \<le> adc k" using Suc.prems[of k] by simp
  have "sample_loop adc (Suc k) n (s, v) = (s, v)"
    by (rule Suc.IH) (use Suc.prems in auto)
  with rej show ?case by (auto simp: acc Let_def)
qed

text \<open>
  Only readings strictly between 10 and 4085 are added, so after \<open>n\<close> rounds the sum has
  grown by at most \<open>4084 * n\<close> and the count by at most \<open>n\<close>: the C \<open>long\<close> and \<open>int\<close>
  that hold them cannot overflow in twenty rounds, and unbounded integers model them
  exactly.
\<close>

lemma sample_loop_bounds:
  "sample_loop adc k n (s, v) = (s', v')
   \<Longrightarrow> s \<le> s' \<and> s' \<le> s + 4084 * int n \<and> v \<le> v' \<and> v' \<le> v + int n"
proof (induction n arbitrary: k s v)
  case 0
  then show ?case by simp
next
  case (Suc n)
  show ?case
  proof (cases "adc k > 10 \<and> adc k < 4085")
    case True
    with Suc.prems have "sample_loop adc (Suc k) n (s + adc k, v + 1) = (s', v')"
      by (simp add: Let_def)
    from Suc.IH[OF this] True show ?thesis by simp
  next
    case False
    with Suc.prems have "sample_loop adc (Suc k) n (s, v) = (s', v')"
      by (simp add: Let_def)
    from Suc.IH[OF this] show ?thesis by simp
  qed
qed

lemma calibrate_average_total: "\<exists>g. calibrate_average adc g0 = Inr g"
  by (simp add: calibrate_average_def c_div_def Let_def split: prod.splits)

lemma calibrate_average_fallback:
  assumes "sample_loop adc 50 20 (0, 0) = (0, 0)"
  shows "calibrate_average adc g =
           Inr (g\<lparr>serial := serial g @
                    [Println ''WARNING: No valid readings during calibration!'',
                     Println ''Check LDR connection and lighting conditions''],
                  adcValue := 2048\<rparr>)"
  by (simp add: calibrate_average_def assms)

lemma calibrate_convert_adcValue: "adcValue (calibrate_convert g) = adcValue g"
  by (simp add: calibrate_convert_def Let_def)

lemma calibrate_convert_serial: "set (serial g) \<subseteq> set (serial (calibrate_convert g))"
  by (auto simp add: calibrate_convert_def Let_def)

lemma calibrateLDR_total: "\<exists>g. calibrateLDR adc g0 = Inr g"
proof -
  obtain g1 where "calibrate_average adc g0 = Inr g1"
    using calibrate_average_total by blast
  thus ?thesis by (simp add: calibrateLDR_def)
qed

section \<open>The claims\<close>

text \<open>
  C1. For a cycle whose raw voltage sample and raw current sample are both 2048, the
  converted grid voltage (about 363) exceeds the ceiling of 300, so the record has
  \<open>gridVoltage\<close> 0 and \<open>activePower\<close> 0. The classifier applied to that record returns
  "GRID FAULT", since 0 is below 180: it does not return "STANDBY".
\<close>

theorem midscale_cycle_grid_fault:
  assumes "analogRead hw VOLTAGE_PIN = 2048" and "analogRead hw CURRENT_PIN = 2048"
  shows "real_of_int (analogRead hw VOLTAGE_PIN) * VREF / ADC_RESOLUTION * 220 > 300
    \<and> gridVoltage (loop_body hw data) = 0
    \<and> activePower (loop_body hw data) = 0
    \<and> getSystemStatus (loop_body hw data) = ''GRID FAULT''"
proof -
  have v: "real_of_int (analogRead hw VOLTAGE_PIN) * VREF / ADC_RESOLUTION * 220 > 300"
    using assms by (simp add: VREF_def ADC_RESOLUTION_def)
  have g: "gridVoltage (readAllSensors hw data) = 0"
    using v by (simp add: readAllSensors_gridVoltage)
  have p: "activePower (loop_body hw data) = 0"
    by (simp add: loop_body_def calculateElectricalParameters_activePower g)
  have g': "gridVoltage (loop_body hw data) = 0"
    by (simp add: loop_body_def calculateElectricalParameters_keeps g)
  show ?thesis using v p g' by (simp add: getSystemStatus_def)
qed

theorem midscale_cycle_grid_fault_witness:
  "analogRead \<lparr>readTemperature = Finite 25, readHumidity = Finite 60,
      analogRead = (\<lambda>p. 2048)\<rparr> VOLTAGE_PIN = 2048
   \<and> analogRead \<lparr>readTemperature = Finite 25, readHumidity = Finite 60,
      analogRead = (\<lambda>p. 2048)\<rparr> CURRENT_PIN = 2048
   \<and> gridVoltage (loop_body \<lparr>readTemperature = Finite 25, readHumidity = Finite 60,
      analogRead = (\<lambda>p. 2048)\<rparr> data_init) = 0
   \<and> activePower (loop_body \<lparr>readTemperature = Finite 25, readHumidity = Finite 60,
      analogRead = (\<lambda>p. 2048)\<rparr> data_init) = 0
   \<and> getSystemStatus (loop_body \<lparr>readTemperature = Finite 25, readHumidity = Finite 60,
      analogRead = (\<lambda>p. 2048)\<rparr> data_init) = ''GRID FAULT''"
  using midscale_cycle_grid_fault [of "\<lparr>readTemperature = Finite 25, readHumidity = Finite 60,
      analogRead = (\<lambda>p. 2048)\<rparr>" data_init]
  by simp

text \<open>
  The claim as the specification states it (the label is "STANDBY") fails at the cycle
  whose three raw samples are 2048, started from the zero-initialised record.
\<close>

theorem midscale_cycle_not_standby:
  "getSystemStatus (loop_body \<lparr>readTemperature = Finite 25, readHumidity = Finite 60,
      analogRead = (\<lambda>p. 2048)\<rparr> data_init) \<noteq> ''STANDBY''"
proof -
  let ?hw = "\<lparr>readTemperature = Finite 25, readHumidity = Finite 60, analogRead = (\<lambda>p. 2048)\<rparr>"
  have "gridVoltage (readAllSensors ?hw data_init) = 0"
    by (simp add: readAllSensors_gridVoltage VREF_def ADC_RESOLUTION_def)
  hence "gridVoltage (loop_body ?hw data_init) = 0"
    by (simp add: loop_body_def calculateElectricalParameters_keeps)
  thus ?thesis by (simp add: getSystemStatus_def)
qed

text \<open>
  C2. In the diagnostic sketch (\<open>readLDRSensor\<close>) every light-channel voltage at or below
  the low guard of 0.3 V gives \<open>lightIntensity\<close> 50000 and \<open>irradiance\<close> \<open>50000 / 120\<close>,
  and every voltage at or above the high guard of 3.0 V gives exactly 0 lux. In the main
  sketch (\<open>readAllSensors\<close>) every voltage at or below the guard of 0.1 V gives
  \<open>lightIntensity\<close> 0 and \<open>irradiance\<close> 0, and there is no high guard: for a voltage from
  3.0 V up to \<open>VREF\<close> the value is \<open>2500 / v - 500\<close>, which is positive.
\<close>

theorem light_guards_by_sketch:
  "(\<exists>g. readLDRSensor adc g0 = Inr g
      \<and> voltage g = real_of_int (adcValue g) * VREF / ADC_RESOLUTION
      \<and> (voltage g \<le> 0.3 \<longrightarrow> lightIntensity_g g = 50000 \<and> irradiance_g g = 50000 / 120)
      \<and> (voltage g \<ge> 3.0 \<longrightarrow> lightIntensity_g g = 0 \<and> irradiance_g g = 0))
   \<and> (real_of_int (analogRead hw LDR_PIN) * VREF / ADC_RESOLUTION \<le> 0.1 \<longrightarrow>
        lightIntensity (loop_body hw data) = 0 \<and> irradiance (loop_body hw data) = 0)
   \<and> (3.0 \<le> real_of_int (analogRead hw LDR_PIN) * VREF / ADC_RESOLUTION
        \<and> real_of_int (analogRead hw LDR_PIN) * VREF / ADC_RESOLUTION \<le> VREF \<longrightarrow>
        lightIntensity (loop_body hw data) =
           2500 / (real_of_int (analogRead hw LDR_PIN) * VREF / ADC_RESOLUTION) - 500
        \<and> lightIntensity (loop_body hw data) > 0)"
  using readLDRSensor_ladder main_low_guard main_no_high_guard by blast


theorem light_guards_by_sketch_witness:
  "(\<exists>g. readLDRSensor (\<lambda>k. 62) globals_init = Inr g \<and> voltage g \<le> 0.3
        \<and> lightIntensity_g g = 50000 \<and> irradiance_g g = 50000 / 120)
   \<and> (\<exists>g. readLDRSensor (\<lambda>k. 4000) globals_init = Inr g \<and> voltage g \<ge> 3.0
        \<and> lightIntensity_g g = 0 \<and> irradiance_g g = 0)
   \<and> real_of_int (analogRead \<lparr>readTemperature = Finite 25, readHumidity = Finite 60,
        analogRead = (\<lambda>p. 62)\<rparr> LDR_PIN) * VREF / ADC_RESOLUTION \<le> 0.1
   \<and> lightIntensity (loop_body \<lparr>readTemperature = Finite 25, readHumidity = Finite 60,
        analogRead = (\<lambda>p. 62)\<rparr> data_init) = 0
   \<and> irradiance (loop_body \<lparr>readTemperature = Finite 25, readHumidity = Finite 60,
        analogRead = (\<lambda>p. 62)\<rparr> data_init) = 0
   \<and> 3.0 \<le> real_of_int (analogRead \<lparr>readTemperature = Finite 25, readHumidity = Finite 60,
        analogRead = (\<lambda>p. 4095)\<rparr> LDR_PIN) * VREF / ADC_RESOLUTION
   \<and> real_of_int (analogRead \<lparr>readTemperature = Finite 25, readHumidity = Finite 60,
        analogRead = (\<lambda>p. 4095)\<rparr> LDR_PIN) * VREF / ADC_RESOLUTION \<le> VREF
   \<and> lightIntensity (loop_body \<lparr>readTemperature = Finite 25, readHumidity = Finite 60,
        analogRead = (\<lambda>p. 4095)\<rparr> data_init) > 0"
proof -
  let ?lo = "\<lparr>readTemperature = Finite 25, readHumidity = Finite 60, analogRead = (\<lambda>p. 62)\<rparr>"
  let ?hi = "\<lparr>readTemperature = Finite 25, readHumidity = Finite 60, analogRead = (\<lambda>p. 4095)\<rparr>"
  have lo: "real_of_int (analogRead ?lo LDR_PIN) * VREF / ADC_RESOLUTION \<le> 0.1"
    by (simp add: VREF_def ADC_RESOLUTION_def)
  have hi: "3.0 \<le> real_of_int (analogRead ?hi LDR_PIN) * VREF / ADC_RESOLUTION
      \<and> real_of_int (analogRead ?hi LDR_PIN) * VREF / ADC_RESOLUTION \<le> VREF"
    by (simp add: VREF_def ADC_RESOLUTION_def)
  note bright = light_guards_by_sketch [of "\<lambda>k. 62" globals_init ?lo data_init]
  note dark = light_guards_by_sketch [of "\<lambda>k. 4000" globals_init ?hi data_init]
  from bright obtain g where g: "readLDRSensor (\<lambda>k. 62) globals_init = Inr g"
      "voltage g = real_of_int (adcValue g) * VREF / ADC_RESOLUTION"
      "voltage g \<le> 0.3 \<longrightarrow> lightIntensity_g g = 50000 \<and> irradiance_g g = 50000 / 120"
    by blast
  have "adcValue g = 62"
    using readLDRSensor_adcValue [OF read_average_62 g(1)] by simp
  hence gv: "voltage g \<le> 0.3" by (simp add: g(2) VREF_def ADC_RESOLUTION_def)
  with g have A: "\<exists>g. readLDRSensor (\<lambda>k. 62) globals_init = Inr g \<and> voltage g \<le> 0.3
        \<and> lightIntensity_g g = 50000 \<and> irradiance_g g = 50000 / 120"
    by blast
  from dark obtain h where h: "readLDRSensor (\<lambda>k. 4000) globals_init = Inr h"
      "voltage h = real_of_int (adcValue h) * VREF / ADC_RESOLUTION"
      "voltage h \<ge> 3.0 \<longrightarrow> lightIntensity_g h = 0 \<and> irradiance_g h = 0"
    by blast
  have "adcValue h = 4000"
    using readLDRSensor_adcValue [OF read_average_4000 h(1)] by simp
  hence hv: "voltage h \<ge> 3.0" by (simp add: h(2) VREF_def ADC_RESOLUTION_def)
  with h have B: "\<exists>g. readLDRSensor (\<lambda>k. 4000) globals_init = Inr g \<and> voltage g \<ge> 3.0
        \<and> lightIntensity_g g = 0 \<and> irradiance_g g = 0"
    by blast
  from bright lo have C: "lightIntensity (loop_body ?lo data_init) = 0
      \<and> irradiance (loop_body ?lo data_init) = 0" by blast
  from dark hi have D: "lightIntensity (loop_body ?hi data_init) > 0" by blast
  from A B C D lo hi show ?thesis by blast
qed

text \<open>
  The claim as the specification states it fails in the main sketch: the raw light sample
  62 (about 0.05 V, below the guard) does not give 50000 lux, and the raw sample 4095
  (3.3 V, above 3.0 V) does not give 0 lux.
\<close>

theorem main_low_voltage_not_bright:
  "lightIntensity (loop_body \<lparr>readTemperature = Finite 25, readHumidity = Finite 60,
      analogRead = (\<lambda>p. 62)\<rparr> data_init) \<noteq> 50000
   \<and> real_of_int 62 * VREF / ADC_RESOLUTION \<le> 0.1
   \<and> lightIntensity (loop_body \<lparr>readTemperature = Finite 25, readHumidity = Finite 60,
      analogRead = (\<lambda>p. 4095)\<rparr> data_init) \<noteq> 0
   \<and> real_of_int 4095 * VREF / ADC_RESOLUTION \<ge> 3.0"
  by (simp add: loop_body_def calculateElectricalParameters_keeps readAllSensors_lightIntensity
        VREF_def ADC_RESOLUTION_def)


text \<open>
  C3. The status classifier is a total function of the Data Record that agrees with the
  priority list of the specification, first match winning: \<open>gridVoltage\<close> below 180 or
  above 250 gives "GRID FAULT", else \<open>activePower\<close> above 5000 gives "HIGH LOAD", else
  above 1000 "NORMAL", else above 100 "LOW LOAD", else "STANDBY". It always returns one of
  these five labels, and every record with \<open>gridVoltage = 260\<close> gives "GRID FAULT"
  whatever its \<open>activePower\<close>.
\<close>

theorem getSystemStatus_priority:
  "getSystemStatus d = status_spec d
   \<and> getSystemStatus d \<in> {''GRID FAULT'', ''HIGH LOAD'', ''NORMAL'', ''LOW LOAD'', ''STANDBY''}
   \<and> (gridVoltage d = 260 \<longrightarrow> getSystemStatus d = ''GRID FAULT'')"
  by (simp add: getSystemStatus_def status_spec_def status_rules_def)

theorem getSystemStatus_priority_witness:
  "gridVoltage (data_init\<lparr>gridVoltage := 260, activePower := 6000\<rparr>) = 260
   \<and> activePower (data_init\<lparr>gridVoltage := 260, activePower := 6000\<rparr>) > 5000
   \<and> getSystemStatus (data_init\<lparr>gridVoltage := 260, activePower := 6000\<rparr>) = ''GRID FAULT''"
  using getSystemStatus_priority [of "data_init\<lparr>gridVoltage := 260, activePower := 6000\<rparr>",
      THEN conjunct2, THEN conjunct2]
  by simp

text \<open>
  C6. Baseline calibration returns for every sequence of readings: the only fault of the
  model, a division by zero, never occurs. If each of the twenty sample readings is
  rejected by the rail filter (it is at most 10 or at least 4085), the baseline
  \<open>adcValue\<close> is the mid-scale default 2048 and the warning line is written to the serial
  port.
\<close>

theorem calibration_fallback:
  "(\<exists>g. calibrateLDR adc g0 = Inr g)
   \<and> ((\<forall>i. 50 \<le> i \<and> i < 70 \<longrightarrow> adc i \<le> 10 \<or> 4085 \<le> adc i) \<longrightarrow>
        (\<exists>g. calibrateLDR adc g0 = Inr g \<and> adcValue g = 2048
           \<and> Println ''WARNING: No valid readings during calibration!'' \<in> set (serial g)))"
proof (intro conjI impI)
  show "\<exists>g. calibrateLDR adc g0 = Inr g" by (rule calibrateLDR_total)
next
  assume rej: "\<forall>i. 50 \<le> i \<and> i < 70 \<longrightarrow> adc i \<le> 10 \<or> 4085 \<le> adc i"
  let ?g1 = "g0\<lparr>serial := serial g0 @
                    [Println ''WARNING: No valid readings during calibration!'',
                     Println ''Check LDR connection and lighting conditions''],
                  adcValue := 2048\<rparr>"
  have loop: "sample_loop adc 50 20 (0, 0) = (0, 0)"
    by (rule sample_loop_all_rejected) (use rej in auto)
  have res: "calibrateLDR adc g0 = Inr (calibrate_convert ?g1)"
    by (simp add: calibrateLDR_def calibrate_average_fallback [OF loop])
  have a: "adcValue (calibrate_convert ?g1) = 2048"
    by (simp add: calibrate_convert_adcValue)
  have "Println ''WARNING: No valid readings during calibration!'' \<in> set (serial ?g1)"
    by simp
  hence w: "Println ''WARNING: No valid readings during calibration!''
      \<in> set (serial (calibrate_convert ?g1))"
    using calibrate_convert_serial by blast
  from res a w show "\<exists>g. calibrateLDR adc g0 = Inr g \<and> adcValue g = 2048
           \<and> Println ''WARNING: No valid readings during calibration!'' \<in> set (serial g)"
    by blast
qed

theorem calibration_fallback_witness:
  "list_all (\<lambda>r. r \<le> 10 \<or> 4085 \<le> r) (map (\<lambda>k. 5::int) [50..<70])
   \<and> list_all (\<lambda>r. r \<le> 10 \<or> 4085 \<le> r) (map (\<lambda>k. 4090::int) [50..<70])
   \<and> (\<exists>g. calibrateLDR (\<lambda>k. 5) globals_init = Inr g \<and> adcValue g = 2048
           \<and> Println ''WARNING: No valid readings during calibration!'' \<in> set (serial g))
   \<and> (\<exists>g. calibrateLDR (\<lambda>k. 4090) globals_init = Inr g \<and> adcValue g = 2048
           \<and> Println ''WARNING: No valid readings during calibration!'' \<in> set (serial g))"
  using calibration_fallback [of "\<lambda>k. 5" globals_init]
    calibration_fallback [of "\<lambda>k. 4090" globals_init]
  by (simp add: list_all_iff)

text \<open>
  C4. Whenever the grid voltage converted from the raw voltage sample exceeds 300, the
  \<open>gridVoltage\<close> field of the record the cycle produces is exactly 0, and otherwise it is
  the converted value; likewise \<open>loadCurrent\<close> is exactly 0 whenever the magnitude
  converted from the raw current sample exceeds 50, and otherwise it is that magnitude.
\<close>

theorem plausibility_clamps:
  "gridVoltage (loop_body hw data) =
     (if real_of_int (analogRead hw VOLTAGE_PIN) * VREF / ADC_RESOLUTION * 220 > 300 then 0
      else real_of_int (analogRead hw VOLTAGE_PIN) * VREF / ADC_RESOLUTION * 220)
   \<and> loadCurrent (loop_body hw data) =
     (if \<bar>(real_of_int (analogRead hw CURRENT_PIN) * VREF / ADC_RESOLUTION - VREF / 2)
           / ACS712_SENSITIVITY\<bar> > 50
      then 0
      else \<bar>(real_of_int (analogRead hw CURRENT_PIN) * VREF / ADC_RESOLUTION - VREF / 2)
             / ACS712_SENSITIVITY\<bar>)"
  unfolding loop_body_def calculateElectricalParameters_keeps
  using readAllSensors_gridVoltage readAllSensors_loadCurrent by simp

text \<open>
  Both clamps at work: the voltage clamp at the mid-scale sample 2048, the current clamp at
  the sample 20000, which lies outside the range of the converter.
\<close>

theorem plausibility_clamps_witness:
  "300 < real_of_int 2048 * VREF / ADC_RESOLUTION * 220
   \<and> gridVoltage (loop_body \<lparr>readTemperature = Finite 25, readHumidity = Finite 60,
        analogRead = (\<lambda>p. 2048)\<rparr> data_init) = 0
   \<and> 50 < \<bar>(real_of_int 20000 * VREF / ADC_RESOLUTION - VREF / 2) / ACS712_SENSITIVITY\<bar>
   \<and> loadCurrent (loop_body \<lparr>readTemperature = Finite 25, readHumidity = Finite 60,
        analogRead = (\<lambda>p. 20000)\<rparr> data_init) = 0"
proof -
  have v: "300 < real_of_int 2048 * VREF / ADC_RESOLUTION * 220"
    by (simp add: VREF_def ADC_RESOLUTION_def)
  have c: "50 < \<bar>(real_of_int 20000 * VREF / ADC_RESOLUTION - VREF / 2) / ACS712_SENSITIVITY\<bar>"
    by (simp add: VREF_def ADC_RESOLUTION_def ACS712_SENSITIVITY_def)
  from v c
    plausibility_clamps [of "\<lparr>readTemperature = Finite 25, readHumidity = Finite 60,
        analogRead = (\<lambda>p. 2048)\<rparr>" data_init]
    plausibility_clamps [of "\<lparr>readTemperature = Finite 25, readHumidity = Finite 60,
        analogRead = (\<lambda>p. 20000)\<rparr>" data_init]
  show ?thesis by simp
qed


text \<open>
  C7. In every cycle \<open>dhtError\<close> is set if and only if the combo-sensor driver answers NaN
  for the temperature or for the humidity. One flag stands for both quantities; the two
  values are stored as the driver gave them.
\<close>

theorem dhtError_iff_driver_nan:
  "dhtError (loop_body hw data) = (isnan (readTemperature hw) \<or> isnan (readHumidity hw))
   \<and> temperature (loop_body hw data) = readTemperature hw
   \<and> humidity (loop_body hw data) = readHumidity hw"
  by (simp add: loop_body_def calculateElectricalParameters_keeps readAllSensors_dht)

text \<open>
  C8. The record a cycle produces, and the status label computed from it, depend on the
  hardware answers of that cycle alone: two runs on the same answers give the same record
  and the same label, whatever the global record held before each run.
\<close>

theorem loop_body_deterministic:
  "loop_body hw d1 = loop_body hw d2
   \<and> getSystemStatus (loop_body hw d1) = getSystemStatus (loop_body hw d2)"
proof -
  have "loop_body hw d1 = loop_body hw d2"
    unfolding loop_body_def
    by (rule calculateElectricalParameters_cong)
       (simp_all only: readAllSensors_dht readAllSensors_flags readAllSensors_lightIntensity
          readAllSensors_irradiance readAllSensors_gridVoltage readAllSensors_loadCurrent)
  thus ?thesis by simp
qed

text \<open>
  C9. For every cycle and every raw input the flags \<open>ldrError\<close>, \<open>voltageError\<close> and
  \<open>currentError\<close> of the record the cycle produces are false: the analog channels have
  no unavailability path.
\<close>

theorem analog_error_flags_false:
  "\<not> ldrError (loop_body hw data) \<and> \<not> voltageError (loop_body hw data)
   \<and> \<not> currentError (loop_body hw data)"
  by (simp add: loop_body_def calculateElectricalParameters_keeps readAllSensors_flags)

text \<open>
  C10. In the main sketch the computed \<open>lightIntensity\<close> is strictly below 24500 for every
  raw light sample: above the 0.1 V guard it is \<open>2500 / v - 500\<close> floored at 0, the upper
  clamp never changes it and the value 50000 is never produced; \<open>irradiance\<close> never
  exceeds \<open>24500 / 120\<close>.
\<close>

theorem main_lightIntensity_below_24500:
  "lightIntensity (loop_body hw data) < 24500
   \<and> lightIntensity (loop_body hw data) =
       (if real_of_int (analogRead hw LDR_PIN) * VREF / ADC_RESOLUTION > 0.1
        then max 0 (2500 / (real_of_int (analogRead hw LDR_PIN) * VREF / ADC_RESOLUTION) - 500)
        else 0)
   \<and> lightIntensity (loop_body hw data) \<noteq> 50000
   \<and> irradiance (loop_body hw data) \<le> 24500 / 120"
proof -
  let ?v = "real_of_int (analogRead hw LDR_PIN) * VREF / ADC_RESOLUTION"
  have eq: "lightIntensity (loop_body hw data) = (if ?v > 0.1 then max 0 (2500 / ?v - 500) else 0)"
  proof (cases "?v > 0.1")
    case True
    from inverse_lux_bound[OF True] have "\<not> 2500 / ?v - 500 > 50000" by simp
    with True show ?thesis
      unfolding loop_body_def calculateElectricalParameters_keeps readAllSensors_lightIntensity
      by (simp add: max_def)
  next
    case False
    then show ?thesis
      unfolding loop_body_def calculateElectricalParameters_keeps readAllSensors_lightIntensity
      by simp
  qed
  have lt: "lightIntensity (loop_body hw data) < 24500"
  proof (cases "?v > 0.1")
    case True
    from inverse_lux_bound[OF True] True show ?thesis unfolding eq by (simp add: max_def)
  next
    case False
    then show ?thesis unfolding eq by simp
  qed
  have irr: "irradiance (loop_body hw data) = lightIntensity (loop_body hw data) / 120"
    unfolding loop_body_def calculateElectricalParameters_keeps readAllSensors_irradiance ..
  from lt have "irradiance (loop_body hw data) \<le> 24500 / 120" unfolding irr by simp
  with eq lt show ?thesis by simp
qed

end
